theory Spec2Isabelle
  imports Main "HOL-Library.AList"
begin

section \<open>Migration 0072: the offered fields of the facility model\<close>

text \<open>
  \<^verbatim>\<open>peeringdb_server/migrations/0072_add_fac_offered_fields.py\<close> is a declarative
  value: a list of dependencies and a list of \<^verbatim>\<open>AddField\<close> operations. Each keyword
  argument of a field constructor is a field of the record below; an argument the source
  does not pass takes Django's documented default (\<^verbatim>\<open>null=False\<close>, no choices, no
  \<^verbatim>\<open>max_length\<close>, no \<^verbatim>\<open>help_text\<close>).
\<close>

datatype field_class = PositiveIntegerField | CharField

datatype field_default = Default_None | Default_Str string

record model_field =
  field_class :: field_class
  blank :: bool
  null_opt :: bool
  choices :: "(string \<times> string) list option"
  default_opt :: field_default
  max_length :: "nat option"
  help_text :: "string option"
  verbose_name :: string

record add_field =
  model_name :: string
  name :: string
  field :: model_field

record migration =
  dependencies :: "(string \<times> string) list"
  operations :: "add_field list"

definition offered_power :: add_field where
  "offered_power =
     \<lparr> model_name = ''facility'',
       name = ''offered_power'',
       field = \<lparr> field_class = PositiveIntegerField,
                 blank = True,
                 null_opt = True,
                 choices = None,
                 default_opt = Default_None,
                 max_length = None,
                 help_text = Some ''The amount of power offered by the facility'',
                 verbose_name = ''Offered Power (kilowatts)'' \<rparr> \<rparr>"

definition offered_resilience :: add_field where
  "offered_resilience =
     \<lparr> model_name = ''facility'',
       name = ''offered_resilience'',
       field = \<lparr> field_class = CharField,
                 blank = True,
                 null_opt = False,
                 choices = Some
                   [ ('''', ''Not Disclosed''),
                     (''Not Disclosed'', ''Not Disclosed''),
                     (''None (Best Effort)'', ''None (Best Effort)''),
                     (''N+1'', ''N+1''),
                     (''2N'', ''2N'') ],
                 default_opt = Default_Str '''',
                 max_length = Some 64,
                 help_text = None,
                 verbose_name = ''Offered Resilience'' \<rparr> \<rparr>"

definition offered_space :: add_field where
  "offered_space =
     \<lparr> model_name = ''facility'',
       name = ''offered_space'',
       field = \<lparr> field_class = PositiveIntegerField,
                 blank = True,
                 null_opt = True,
                 choices = None,
                 default_opt = Default_None,
                 max_length = None,
                 help_text = Some
                   ''The amount of space offered by the facility, in square meters'',
                 verbose_name = ''Offered Space (sq meters)'' \<rparr> \<rparr>"

definition Migration :: migration where
  "Migration =
     \<lparr> dependencies = [(''peeringdb_server'', ''0071_populate_obj_counts'')],
       operations = [offered_power, offered_resilience, offered_space] \<rparr>"

text \<open>
  The values a field with choices stores are the first components of its choice pairs;
  the second components are the labels shown for them. A field without choices has
  neither.
\<close>

definition stored_values :: "model_field \<Rightarrow> string list" where
  "stored_values f = (case choices f of None \<Rightarrow> [] | Some cs \<Rightarrow> map fst cs)"

definition choice_labels :: "model_field \<Rightarrow> string list" where
  "choice_labels f = (case choices f of None \<Rightarrow> [] | Some cs \<Rightarrow> map snd cs)"

definition label_of :: "model_field \<Rightarrow> string \<Rightarrow> string option" where
  "label_of f v = (case choices f of None \<Rightarrow> None | Some cs \<Rightarrow> map_of cs v)"

definition resilience_tiers :: "string list" where
  "resilience_tiers = [''Not Disclosed'', ''None (Best Effort)'', ''N+1'', ''2N'']"

section \<open>tests/test_api_keys.py\<close>

text \<open>
  Exceptions are values: a function of the source that can raise returns
  \<open>error + 'a\<close>, with \<open>Inl\<close> for the exception. \<open>Raised\<close> stands for an exception
  of a collaborator outside this file (the file system, the JSON parser, the REST
  framework), named by its text.
\<close>

datatype error =
    RdapNotFoundError
  | AttributeError
  | AssertionError
  | DoesNotExist
  | MultipleObjectsReturned
  | Raised string

subsection \<open>The RDAP lookup override\<close>

text \<open>Python's \<^verbatim>\<open>range(a, b)\<close> as a list: \<open>a\<close> up to \<open>b - 1\<close>.\<close>

definition py_range :: "int \<Rightarrow> int \<Rightarrow> int list" where
  "py_range a b = [a..b - 1]"

definition ASN_RANGE_OVERRIDE :: "int list" where
  "ASN_RANGE_OVERRIDE = py_range 9000000 9000999"

text \<open>
  \<^verbatim>\<open>pdbinet.RdapAsn(result)\<close> wraps a parsed JSON object \<open>'j\<close>. A lookup function
  takes the ASN (the instance carries no state of its own that the override reads) and
  returns an \<open>RdapAsn\<close> or raises.
\<close>

datatype 'j rdap_asn = RdapAsn 'j

type_synonym 'j asn_lookup = "int \<Rightarrow> error + 'j rdap_asn"

text \<open>
  What the class attribute \<^verbatim>\<open>pdbinet.RdapLookup.get_asn\<close> is bound to: a function of
  \<^verbatim>\<open>peeringdb_server.inet\<close>, or the closure \<^verbatim>\<open>get_asn\<close> that \<^verbatim>\<open>setup_module\<close>
  defines. The closure reads \<^verbatim>\<open>self.override_result\<close> and the module global
  \<^verbatim>\<open>RdapLookup_get_asn\<close> when it is called, so it is a constructor of its own and
  its behaviour is given on the state of the call (\<open>get_asn\<close> below).
\<close>

datatype 'j get_asn_binding = Library_get_asn "'j asn_lookup" | Override_get_asn

text \<open>
  The class \<^verbatim>\<open>pdbinet.RdapLookup\<close>, as far as this file touches it: the binding of
  \<^verbatim>\<open>get_asn\<close>, and the attribute \<^verbatim>\<open>override_result\<close> (\<open>None\<close> while the class
  has no such attribute).
\<close>

record 'j rdap_lookup =
  get_asn_attr :: "'j get_asn_binding"
  override_result :: "'j option"

text \<open>
  The state of the test module: the class it patches and its global
  \<^verbatim>\<open>RdapLookup_get_asn\<close> (line 18).
\<close>

record 'j test_module =
  RdapLookup :: "'j rdap_lookup"
  RdapLookup_get_asn :: "'j asn_lookup"

text \<open>
  Importing the module runs line 18: the global takes the function the class attribute
  is bound to at that moment. The closure of \<^verbatim>\<open>setup_module\<close> does not exist yet, so
  that binding is a function \<open>f\<close> of the library.
\<close>

definition import_module :: "'j asn_lookup \<Rightarrow> 'j option \<Rightarrow> 'j test_module" where
  "import_module f r =
     \<lparr> RdapLookup = \<lparr> get_asn_attr = Library_get_asn f, override_result = r \<rparr>,
       RdapLookup_get_asn = f \<rparr>"

text \<open>
  \<^verbatim>\<open>setup_module\<close>: \<open>loaded\<close> is the outcome of opening and parsing
  \<^verbatim>\<open>data/api/rdap_override.json\<close>; when that raises, nothing has been assigned yet.
\<close>

definition setup_module :: "error + 'j \<Rightarrow> 'j test_module \<Rightarrow> error + 'j test_module" where
  "setup_module loaded m =
     (case loaded of
        Inl e \<Rightarrow> Inl e
      | Inr j \<Rightarrow>
          Inr (m\<lparr> RdapLookup :=
                 (RdapLookup m)\<lparr> override_result := Some j,
                                 get_asn_attr := Override_get_asn \<rparr> \<rparr>))"

text \<open>
  The closure \<^verbatim>\<open>get_asn(self, asn)\<close> of \<^verbatim>\<open>setup_module\<close>.
  \<^verbatim>\<open>pdbinet.asn_is_bogon\<close> is not part of this file and is a parameter.
\<close>

definition get_asn :: "(int \<Rightarrow> bool) \<Rightarrow> 'j test_module \<Rightarrow> int \<Rightarrow> error + 'j rdap_asn" where
  "get_asn asn_is_bogon m asn =
     (if asn \<in> set ASN_RANGE_OVERRIDE then
        (case override_result (RdapLookup m) of
           None \<Rightarrow> Inl AttributeError
         | Some r \<Rightarrow> Inr (RdapAsn r))
      else if asn_is_bogon asn then RdapLookup_get_asn m asn
      else Inl RdapNotFoundError)"

text \<open>Calling \<^verbatim>\<open>lookup.get_asn(asn)\<close> on an instance dispatches on the class attribute.\<close>

definition call_get_asn :: "(int \<Rightarrow> bool) \<Rightarrow> 'j test_module \<Rightarrow> int \<Rightarrow> error + 'j rdap_asn" where
  "call_get_asn asn_is_bogon m asn =
     (case get_asn_attr (RdapLookup m) of
        Library_get_asn f \<Rightarrow> f asn
      | Override_get_asn \<Rightarrow> get_asn asn_is_bogon m asn)"

definition teardown_module :: "'j test_module \<Rightarrow> 'j test_module" where
  "teardown_module m =
     m\<lparr> RdapLookup :=
          (RdapLookup m)\<lparr> get_asn_attr := Library_get_asn (RdapLookup_get_asn m) \<rparr> \<rparr>"

text \<open>
  The test runner calls \<^verbatim>\<open>teardown_module\<close> after the tests of a module whose
  \<^verbatim>\<open>setup_module\<close> returned.
\<close>

definition setup_then_teardown :: "error + 'j \<Rightarrow> 'j test_module \<Rightarrow> error + 'j test_module" where
  "setup_then_teardown loaded m =
     (case setup_module loaded m of
        Inl e \<Rightarrow> Inl e
      | Inr m' \<Rightarrow> Inr (teardown_module m'))"

subsection \<open>DummyResponse\<close>

text \<open>
  A Python dict with string keys is an association list with distinct keys, in insertion
  order. \<^verbatim>\<open>json.loads\<close> belongs to the standard library and is a parameter
  \<open>json_loads\<close>, which may raise.
\<close>

type_synonym 'v dict = "(string \<times> 'v) list"

record DummyResponse =
  status_code :: int
  content :: string
  headers :: "string dict"

definition DummyResponse_init :: "int \<Rightarrow> string \<Rightarrow> string dict \<Rightarrow> DummyResponse" where
  "DummyResponse_init sc c h = \<lparr> status_code = sc, content = c, headers = h \<rparr>"

definition data :: "(string \<Rightarrow> error + 'j) \<Rightarrow> DummyResponse \<Rightarrow> error + 'j" where
  "data json_loads r = json_loads (content r)"

definition read :: "DummyResponse \<Rightarrow> string" where
  "read r = content r"

definition getheader :: "DummyResponse \<Rightarrow> string \<Rightarrow> string option" where
  "getheader r n = map_of (headers r) n"

definition json :: "(string \<Rightarrow> error + 'j) \<Rightarrow> DummyResponse \<Rightarrow> error + 'j" where
  "json json_loads r = data json_loads r"

subsection \<open>Python strings and dicts\<close>

text \<open>
  An optional string argument is \<open>None\<close> for \<^verbatim>\<open>None\<close> (or an argument left out)
  and \<open>Some s\<close> for a string. In a condition, \<^verbatim>\<open>None\<close> and the empty string are
  falsy and every other string is truthy.
\<close>

text \<open>\<^verbatim>\<open>str.lower()\<close>, on ASCII letters.\<close>

definition lower_char :: "char \<Rightarrow> char" where
  "lower_char c =
     (let n = (of_char c :: nat) in if 65 \<le> n \<and> n \<le> 90 then char_of (n + 32) else c)"

definition lower :: "string \<Rightarrow> string" where
  "lower s = map lower_char s"

text \<open>How an f-string formats an integer: decimal digits, with a minus sign below zero.\<close>

definition digit_char :: "nat \<Rightarrow> char" where
  "digit_char d = char_of (48 + d)"

function str_nat :: "nat \<Rightarrow> string" where
  "str_nat n = (if n < 10 then [digit_char n] else str_nat (n div 10) @ [digit_char (n mod 10)])"
  by pat_completeness auto
termination
  by (relation "measure (\<lambda>n. n)") auto

declare str_nat.simps [simp del]

definition str_int :: "int \<Rightarrow> string" where
  "str_int i = (if i < 0 then CHR ''-'' # str_nat (nat (- i)) else str_nat (nat i))"

text \<open>
  \<^verbatim>\<open>d.update(**p)\<close> assigns each entry of \<open>p\<close> in turn: the value of a key that
  \<open>d\<close> has is replaced where it stands, a new key goes to the end.
\<close>

definition dict_update :: "'v dict \<Rightarrow> 'v dict \<Rightarrow> 'v dict" where
  "dict_update d p = fold (\<lambda>(k, v) acc. AList.update k v acc) p d"

subsection \<open>DummyRestClientWithKeyAuth\<close>

text \<open>
  The REST framework's \<^verbatim>\<open>APIClient\<close>, as far as the client drives it: the
  credentials sent with every request (\<^verbatim>\<open>_credentials\<close>, set by
  \<^verbatim>\<open>credentials(**kwargs)\<close>) and the user forced on the session by
  \<^verbatim>\<open>force_authenticate\<close>. Users are identified by their user name.
\<close>

record api_client =
  credentials :: "string dict"
  force_user :: "string option"

definition APIClient :: api_client where
  "APIClient = \<lparr> credentials = [], force_user = None \<rparr>"

definition set_credentials :: "string dict \<Rightarrow> api_client \<Rightarrow> api_client" where
  "set_credentials kw a = a\<lparr> credentials := kw \<rparr>"

definition force_authenticate :: "string \<Rightarrow> api_client \<Rightarrow> api_client" where
  "force_authenticate u a = a\<lparr> force_user := Some u \<rparr>"

text \<open>
  The keyword arguments the tests pass to the client. The base class
  \<^verbatim>\<open>twentyc.rpc.client.RestClient\<close> keeps the url and copies the keyword arguments that
  name its attributes (\<^verbatim>\<open>user\<close>, \<^verbatim>\<open>password\<close>, \<^verbatim>\<open>verbose\<close>); an attribute that
  is not passed stays \<^verbatim>\<open>None\<close> (\<^verbatim>\<open>verbose\<close>: \<^verbatim>\<open>False\<close>).
\<close>

record client_kwargs =
  kw_user :: "string option"
  kw_password :: "string option"
  kw_verbose :: "bool option"
  kw_key :: "string option"
  kw_useragent :: "string option"

record rest_client =
  url :: string
  user :: "string option"
  password :: "string option"
  verbose :: bool
  useragent :: "string option"
  user_inst :: string
  key :: "string option"
  api_client :: api_client

text \<open>\<^verbatim>\<open>models.User.objects.get(username=u)\<close> over the user names of the database.\<close>

definition User_objects_get :: "string list \<Rightarrow> string \<Rightarrow> error + string" where
  "User_objects_get users u = (if u \<in> set users then Inr u else Inl DoesNotExist)"

text \<open>Lines 91 to 94: the user name looked up, \<^verbatim>\<open>"guest"\<close> when \<^verbatim>\<open>self.user\<close> is falsy.\<close>

definition user_inst_name :: "string option \<Rightarrow> string" where
  "user_inst_name u = (case u of None \<Rightarrow> ''guest'' | Some n \<Rightarrow> if n \<noteq> [] then n else ''guest'')"

text \<open>
  \<^verbatim>\<open>__init__\<close>. The attribute \<^verbatim>\<open>key\<close> exists only when a key was passed
  (\<open>None\<close> otherwise). The \<^verbatim>\<open>print\<close> of the key branch is not modelled.
\<close>

definition rest_client_init :: "string list \<Rightarrow> string \<Rightarrow> client_kwargs \<Rightarrow> error + rest_client" where
  "rest_client_init users u kw =
     (case User_objects_get users (user_inst_name (kw_user kw)) of
        Inl e \<Rightarrow> Inl e
      | Inr ui \<Rightarrow>
          Inr \<lparr> url = u,
                user = kw_user kw,
                password = kw_password kw,
                verbose = (case kw_verbose kw of None \<Rightarrow> False | Some b \<Rightarrow> b),
                useragent = kw_useragent kw,
                user_inst = ui,
                key = kw_key kw,
                api_client =
                  (case kw_key kw of
                     Some k \<Rightarrow> set_credentials [(''HTTP_AUTHORIZATION'', ''Api-Key '' @ k)] APIClient
                   | None \<Rightarrow> force_authenticate ui APIClient) \<rparr>)"

text \<open>
  What \<^verbatim>\<open>_request\<close> hands to the method of the \<^verbatim>\<open>APIClient\<close>: the path, the body,
  \<^verbatim>\<open>format="json"\<close> and the client's credentials as extra keyword arguments.
\<close>

record 'v api_request =
  req_path :: string
  req_data :: "'v dict"
  req_format :: string
  req_extra :: "string dict"

record api_response =
  res_charset :: string
  res_status_code :: int
  res_content :: string

text \<open>
  Lines 105 to 109: the path of the request. \<^verbatim>\<open>if not url\<close> holds for \<^verbatim>\<open>None\<close> and
  for the empty string; \<^verbatim>\<open>if id\<close> holds for an integer other than 0.
\<close>

definition default_path :: "string \<Rightarrow> int \<Rightarrow> string" where
  "default_path typ id' =
     (if id' \<noteq> 0 then ''/api/'' @ typ @ ''/'' @ str_int id' else ''/api/'' @ typ)"

definition request_path :: "string \<Rightarrow> int \<Rightarrow> string option \<Rightarrow> string" where
  "request_path typ id' url_arg =
     (case url_arg of
        None \<Rightarrow> default_path typ id'
      | Some u \<Rightarrow> if u = [] then default_path typ id' else u)"

text \<open>Lines 112 to 115: the body of the request. An empty dict is falsy.\<close>

definition request_body :: "'v dict option \<Rightarrow> 'v dict option \<Rightarrow> 'v dict" where
  "request_body params data_arg =
     (let d = (case data_arg of None \<Rightarrow> [] | Some d0 \<Rightarrow> if d0 = [] then [] else d0)
      in case params of
           None \<Rightarrow> d
         | Some p \<Rightarrow> if p \<noteq> [] then dict_update d p else d)"

definition build_request ::
  "rest_client \<Rightarrow> string \<Rightarrow> int \<Rightarrow> 'v dict option \<Rightarrow> 'v dict option \<Rightarrow> string option
     \<Rightarrow> 'v api_request" where
  "build_request c typ id' params data_arg url_arg =
     \<lparr> req_path = request_path typ id' url_arg,
       req_data = request_body params data_arg,
       req_format = ''json'',
       req_extra = credentials (api_client c) \<rparr>"

text \<open>
  \<^verbatim>\<open>_request\<close>. The \<^verbatim>\<open>APIClient\<close> is the parameter \<open>api\<close>:
  \<open>api a name\<close> is \<^verbatim>\<open>getattr(a, name)\<close>, \<open>None\<close> when the client has no such attribute,
  and the method found answers a request with a response or raises.
\<close>

type_synonym 'v api_method = "'v api_request \<Rightarrow> error + api_response"

definition request ::
  "(api_client \<Rightarrow> string \<Rightarrow> 'v api_method option) \<Rightarrow> rest_client \<Rightarrow> string \<Rightarrow> int \<Rightarrow> string
     \<Rightarrow> 'v dict option \<Rightarrow> 'v dict option \<Rightarrow> string option \<Rightarrow> error + DummyResponse" where
  "request api c typ id' http_method params data_arg url_arg =
     (case api (api_client c) (lower http_method) of
        None \<Rightarrow> Inl AttributeError
      | Some fnc \<Rightarrow>
          (case fnc (build_request c typ id' params data_arg url_arg) of
             Inl e \<Rightarrow> Inl e
           | Inr res \<Rightarrow>
               if res_charset res = ''utf-8''
               then Inr (DummyResponse_init (res_status_code res) (res_content res) [])
               else Inl AssertionError))"

subsection \<open>APITests.setUp\<close>

text \<open>
  A grainy permission is a namespace with a bitmask. Groups and API keys both hold a
  set of them (the related manager \<^verbatim>\<open>grainy_permissions\<close>), kept as the list of rows
  that \<^verbatim>\<open>.all()\<close> returns.
\<close>

record grainy_permission =
  namespace :: string
  permission :: int

record permission_holder =
  grainy_permissions :: "grainy_permission list"

record group = permission_holder +
  group_name :: string


record organization =
  org_name :: string
  usergroup :: group
  admin_usergroup :: group


text \<open>
  \<^verbatim>\<open>models.OrganizationAPIKey.objects.create_key\<close> is not part of this file and is
  a parameter \<open>create_key\<close> of \<open>setUp\<close>: the key object the manager returns for a name,
  an organization and an email, with whatever permissions a key has at creation. The
  secret key string it returns beside the object is random and is a parameter of
  \<open>setUp\<close> too.
\<close>








record test_db =
  users :: "string list"
  organizations :: "organization list"




section \<open>Properties of the migration\<close>

text \<open>
  C1, as the migration has it: the field offered_resilience stores five values, the
  empty string and the four tier names. Their labels are exactly the four tiers
  Not Disclosed, None (Best Effort), N+1 and 2N: each tier name is labelled by itself,
  and the empty string is a second stored value labelled Not Disclosed. The default is
  the empty string, so it denotes Not Disclosed.
\<close>

theorem offered_resilience_choices:
  "stored_values (field offered_resilience) = [] # resilience_tiers
   \<and> distinct (stored_values (field offered_resilience))
   \<and> remdups (choice_labels (field offered_resilience)) = resilience_tiers
   \<and> map (label_of (field offered_resilience)) resilience_tiers = map Some resilience_tiers
   \<and> label_of (field offered_resilience) [] = Some ''Not Disclosed''
   \<and> default_opt (field offered_resilience) = Default_Str []"
  by (simp add: stored_values_def choice_labels_def label_of_def offered_resilience_def
      resilience_tiers_def)

text \<open>
  The stored values are not the four tiers with one stored value each: the empty string
  is stored too, and the label Not Disclosed belongs to two stored values.
\<close>

theorem offered_resilience_not_one_value_per_tier:
  "\<not> (set (stored_values (field offered_resilience)) = set resilience_tiers
      \<and> distinct (choice_labels (field offered_resilience)))"
  by (simp add: stored_values_def choice_labels_def offered_resilience_def resilience_tiers_def)

text \<open>
  C2: every operation of the migration adds a field to the model facility, and there
  are exactly three: offered_power and offered_space are of Django's non-negative
  integer class PositiveIntegerField, may be blank, are nullable and default to None;
  offered_resilience is a character field with choices that may be blank and defaults to
  the empty string. The integer fields have no choices.
\<close>

theorem migration_adds_three_facility_fields:
  "map model_name (operations Migration) = [''facility'', ''facility'', ''facility'']
   \<and> map name (operations Migration) = [''offered_power'', ''offered_resilience'', ''offered_space'']
   \<and> map (field_class \<circ> field) (operations Migration)
       = [PositiveIntegerField, CharField, PositiveIntegerField]
   \<and> map (blank \<circ> field) (operations Migration) = [True, True, True]
   \<and> map (null_opt \<circ> field) (operations Migration) = [True, False, True]
   \<and> map (default_opt \<circ> field) (operations Migration)
       = [Default_None, Default_Str [], Default_None]
   \<and> choices (field offered_power) = None
   \<and> choices (field offered_space) = None
   \<and> stored_values (field offered_resilience) \<noteq> []"
  by (simp add: Migration_def offered_power_def offered_resilience_def offered_space_def
      stored_values_def)

section \<open>Properties of tests/test_api_keys.py\<close>

subsection \<open>The RDAP lookup override\<close>

lemma set_py_range: "set (py_range a b) = {a..<b}"
  by (auto simp: py_range_def)

lemma in_ASN_RANGE_OVERRIDE:
  "asn \<in> set ASN_RANGE_OVERRIDE \<longleftrightarrow> 9000000 \<le> asn \<and> asn \<le> 9000998"
  by (auto simp: ASN_RANGE_OVERRIDE_def set_py_range)

text \<open>
  C8: when the override file loads, setup_module returns, and from then on a call of
  RdapLookup.get_asn returns the override object for every ASN from 9000000 to 9000998,
  hands every other ASN that asn_is_bogon accepts to the original function, and raises
  RdapNotFoundError for the rest. 9000999 is outside the override range: it raises
  RdapNotFoundError unless asn_is_bogon accepts it.
\<close>

theorem get_asn_after_setup_module:
  "\<exists>m'. setup_module (Inr j) m = Inr m'
     \<and> (\<forall>asn. call_get_asn asn_is_bogon m' asn =
           (if 9000000 \<le> asn \<and> asn \<le> 9000998 then Inr (RdapAsn j)
            else if asn_is_bogon asn then RdapLookup_get_asn m asn
            else Inl RdapNotFoundError))
     \<and> call_get_asn asn_is_bogon m' 9000998 = Inr (RdapAsn j)
     \<and> (\<not> asn_is_bogon 9000999 \<longrightarrow>
           call_get_asn asn_is_bogon m' 9000999 = Inl RdapNotFoundError)"
  by (simp add: setup_module_def call_get_asn_def get_asn_def in_ASN_RANGE_OVERRIDE)

theorem get_asn_after_setup_module_witness:
  "\<exists>m'. setup_module (Inr ''{}'')
           (import_module (\<lambda>asn. Inl (Raised ''original'')) None) = Inr m'
     \<and> call_get_asn (\<lambda>asn. 64512 \<le> asn \<and> asn \<le> 65534) m' 9000000 = Inr (RdapAsn ''{}'')
     \<and> call_get_asn (\<lambda>asn. 64512 \<le> asn \<and> asn \<le> 65534) m' 9000998 = Inr (RdapAsn ''{}'')
     \<and> call_get_asn (\<lambda>asn. 64512 \<le> asn \<and> asn \<le> 65534) m' 64512 = Inl (Raised ''original'')
     \<and> call_get_asn (\<lambda>asn. 64512 \<le> asn \<and> asn \<le> 65534) m' 9000999 = Inl RdapNotFoundError"
proof -
  from get_asn_after_setup_module
         [of "''{}''" "import_module (\<lambda>asn. Inl (Raised ''original'')) None"
             "\<lambda>asn. 64512 \<le> asn \<and> asn \<le> 65534"]
  obtain m' where
    s: "setup_module (Inr ''{}'') (import_module (\<lambda>asn. Inl (Raised ''original'')) None) = Inr m'"
    and c: "\<And>asn. call_get_asn (\<lambda>asn. 64512 \<le> asn \<and> asn \<le> 65534) m' asn =
           (if 9000000 \<le> asn \<and> asn \<le> 9000998 then Inr (RdapAsn ''{}'')
            else if 64512 \<le> asn \<and> asn \<le> 65534
              then RdapLookup_get_asn (import_module (\<lambda>asn. Inl (Raised ''original'')) None) asn
            else Inl RdapNotFoundError)"
    by blast
  have "call_get_asn (\<lambda>asn. 64512 \<le> asn \<and> asn \<le> 65534) m' 9000000 = Inr (RdapAsn ''{}'')"
    and "call_get_asn (\<lambda>asn. 64512 \<le> asn \<and> asn \<le> 65534) m' 9000998 = Inr (RdapAsn ''{}'')"
    and "call_get_asn (\<lambda>asn. 64512 \<le> asn \<and> asn \<le> 65534) m' 64512 = Inl (Raised ''original'')"
    and "call_get_asn (\<lambda>asn. 64512 \<le> asn \<and> asn \<le> 65534) m' 9000999 = Inl RdapNotFoundError"
    by (simp_all add: c import_module_def)
  with s show ?thesis
    by blast
qed

text \<open>
  C9, as the code has it: when setup_module returned, teardown_module binds
  RdapLookup.get_asn to the function saved in the module global at import, which is the
  function bound before setup when nothing rebound it in between. The attribute
  override_result that setup_module assigned stays on the class.
\<close>

theorem teardown_module_restores_get_asn:
  "setup_then_teardown (Inr j) m =
     Inr (m\<lparr> RdapLookup := \<lparr> get_asn_attr = Library_get_asn (RdapLookup_get_asn m),
                               override_result = Some j \<rparr> \<rparr>)
   \<and> setup_then_teardown (Inr j) (import_module f r) = Inr (import_module f (Some j))
   \<and> setup_then_teardown (Inl e) m = Inl e"
  by (simp add: setup_then_teardown_def setup_module_def teardown_module_def import_module_def)

text \<open>
  Setup followed by teardown does not leave the class as it was: a class without the
  attribute override_result has it afterwards.
\<close>

theorem teardown_module_keeps_override_result:
  "setup_then_teardown (Inr ''{}'') (import_module (\<lambda>asn. Inl (Raised ''original'')) None)
     \<noteq> Inr (import_module (\<lambda>asn. Inl (Raised ''original'')) None)"
  by (simp add: setup_then_teardown_def setup_module_def teardown_module_def import_module_def)

subsection \<open>DummyResponse\<close>

text \<open>
  C7: for a DummyResponse built from a status code and a content, json() and data are
  both what json.loads makes of the content, read() is the content, and status_code is
  the status code given.
\<close>

theorem DummyResponse_accessors:
  "json json_loads (DummyResponse_init sc c h) = json_loads c
   \<and> data json_loads (DummyResponse_init sc c h) = json_loads c
   \<and> read (DummyResponse_init sc c h) = c
   \<and> status_code (DummyResponse_init sc c h) = sc"
  by (simp add: json_def data_def read_def DummyResponse_init_def)

subsection \<open>The client's authentication\<close>

text \<open>
  C3: when the user to look up exists, the constructor returns a client. Built with a
  key, the client's credentials are the single header Authorization: Api-Key followed by
  the key as given, and no user is forced on the session; built without a key, it has no
  credentials and the session is forced to the named user, or to guest when the user is
  None or empty. So exactly one of the two modes is active. Every request the client
  builds carries the client's credentials.
\<close>

theorem rest_client_authentication:
  assumes "user_inst_name (kw_user kw) \<in> set us"
  shows "\<exists>c. rest_client_init us u kw = Inr c
    \<and> (case kw_key kw of
          Some k \<Rightarrow>
            credentials (api_client c) = [(''HTTP_AUTHORIZATION'', ''Api-Key '' @ k)]
            \<and> force_user (api_client c) = None
        | None \<Rightarrow>
            credentials (api_client c) = []
            \<and> force_user (api_client c) = Some (user_inst_name (kw_user kw)))
    \<and> (\<forall>typ i p d ua. req_extra (build_request c typ i p d ua) = credentials (api_client c))
    \<and> user_inst_name None = ''guest''
    \<and> user_inst_name (Some []) = ''guest''
    \<and> (\<forall>ch n. user_inst_name (Some (ch # n)) = ch # n)"
  using assms
  by (simp add: rest_client_init_def User_objects_get_def set_credentials_def
        force_authenticate_def APIClient_def build_request_def user_inst_name_def
      split: option.splits)

theorem rest_client_authentication_witness:
  "(\<exists>c. rest_client_init [''guest'', ''api_test''] ''/api''
          \<lparr> kw_user = Some ''api_test'', kw_password = None, kw_verbose = None,
            kw_key = Some ''abc.def'', kw_useragent = None \<rparr> = Inr c
      \<and> credentials (api_client c) = [(''HTTP_AUTHORIZATION'', ''Api-Key abc.def'')]
      \<and> force_user (api_client c) = None)
   \<and> (\<exists>c. rest_client_init [''guest'', ''api_test''] ''/api''
          \<lparr> kw_user = Some ''api_test'', kw_password = None, kw_verbose = None,
            kw_key = None, kw_useragent = None \<rparr> = Inr c
      \<and> credentials (api_client c) = []
      \<and> force_user (api_client c) = Some ''api_test'')
   \<and> (\<exists>c. rest_client_init [''guest'', ''api_test''] ''/api''
          \<lparr> kw_user = None, kw_password = None, kw_verbose = None,
            kw_key = None, kw_useragent = None \<rparr> = Inr c
      \<and> credentials (api_client c) = []
      \<and> force_user (api_client c) = Some ''guest'')"
  using
    rest_client_authentication
      [of "\<lparr> kw_user = Some ''api_test'', kw_password = None, kw_verbose = None,
             kw_key = Some ''abc.def'', kw_useragent = None \<rparr>"
          "[''guest'', ''api_test'']" "''/api''"]
    rest_client_authentication
      [of "\<lparr> kw_user = Some ''api_test'', kw_password = None, kw_verbose = None,
             kw_key = None, kw_useragent = None \<rparr>"
          "[''guest'', ''api_test'']" "''/api''"]
    rest_client_authentication
      [of "\<lparr> kw_user = None, kw_password = None, kw_verbose = None,
             kw_key = None, kw_useragent = None \<rparr>"
          "[''guest'', ''api_test'']" "''/api''"]
  by (fastforce simp: user_inst_name_def)

subsection \<open>The request path\<close>



subsection \<open>The request body\<close>






subsection \<open>The charset assertion\<close>

text \<open>
  What line 119 does with the response of the API client: a response with the charset
  utf-8 becomes a DummyResponse of its status code and content, and any other charset
  raises AssertionError. Which charsets the REST framework answers with is outside this
  file.
\<close>

lemma request_asserts_charset:
  assumes "api (api_client c) (lower http_method) = Some fnc"
    and "fnc (build_request c typ i p d url_arg) = Inr res"
  shows "request api c typ i http_method p d url_arg =
           (if res_charset res = ''utf-8''
            then Inr (DummyResponse_init (res_status_code res) (res_content res) [])
            else Inl AssertionError)"
  using assms by (simp add: request_def)

subsection \<open>The permissions of the organization keys\<close>












end
